theory Spec2Isabelle
  imports Main "HOL-Library.Sublist"
begin

section \<open>Text operations used by the public API\<close>

text \<open>
  Query parameters, identifiers and language tags are Python text; a \<^typ>\<open>char\<close> stands for
  one code point below 256. \<open>str.strip()\<close> without argument removes leading and trailing
  white space: the code points 9-13, 28-32, 133 and 160 in that range.
\<close>

definition isspace :: "char \<Rightarrow> bool" where
  "isspace c = (of_char c \<in> {9, 10, 11, 12, 13, 28, 29, 30, 31, 32, 133, 160 :: nat})"

definition strip :: "string \<Rightarrow> string" where
  "strip s = rev (dropWhile isspace (rev (dropWhile isspace s)))"

text \<open>\<open>s.replace("-", "")\<close>: every hyphen is deleted, nothing else changes.\<close>

definition replace_hyphen :: "string \<Rightarrow> string" where
  "replace_hyphen s = filter (\<lambda>c. c \<noteq> CHR ''-'') s"

text \<open>
  The \<open>icontains\<close> lookup of the query layer: the column value contains the pattern as a
  contiguous substring, letters compared without regard to case. The store compares the
  letters A-Z and a-z as equal (the LIKE operator of SQLite, the store Kolibri ships with);
  the pattern is escaped by the query layer, so it is matched literally.
\<close>

definition ascii_lower :: "char \<Rightarrow> char" where
  "ascii_lower c = (let n = of_char c :: nat in if 65 \<le> n \<and> n \<le> 90 then char_of (n + 32) else c)"

definition icontains :: "string \<Rightarrow> string \<Rightarrow> bool" where
  "icontains val pat = sublist (map ascii_lower pat) (map ascii_lower val)"

text \<open>A nullable column: NULL matches no pattern.\<close>

definition icontains_null :: "string option \<Rightarrow> string \<Rightarrow> bool" where
  "icontains_null val pat = (case val of None \<Rightarrow> False | Some v \<Rightarrow> icontains v pat)"


section \<open>The content store\<close>

text \<open>
  Modelled from the spec: the model declarations of \<open>kolibri.core.content.models\<close>
  (ChannelMetadata, ContentNode, File, LocalFile) are not part of the sources at hand. The
  rows below carry the columns that \<open>api.py\<close> reads through its lookup paths:
  \<open>pk\<close>/\<open>id\<close>, \<open>name\<close>, \<open>description\<close> and \<open>root\<close> of a channel; \<open>tree_id\<close>, \<open>lang\<close>,
  \<open>available\<close> and the reverse relation \<open>files\<close> of a content node; \<open>contentnode\<close>, \<open>lang\<close>
  and \<open>local_file\<close> (reverse name \<open>files\<close>) of a file; \<open>id\<close> and \<open>available\<close> of a local
  file. A file row names one content node (the lookup path is \<open>files__contentnode\<close>) and
  one local file. Language tags are optional (section 3 of the specification);
  \<open>lang__id\<close> is the foreign-key column itself. Stored keys are text; joins compare them
  for equality, and a text given to a lookup by key is first prepared by the key column
  (\<open>get_db_prep_value\<close> below).
\<close>

record LocalFile =
  localfile_id :: string
  localfile_available :: bool

record File =
  file_id :: string
  file_contentnode_id :: string
  file_local_file_id :: string
  file_lang_id :: "string option"

record ContentNode =
  node_id :: string
  node_tree_id :: nat
  node_lang_id :: "string option"
  node_available :: bool

record ChannelMetadata =
  channel_id :: string
  channel_name :: string
  channel_description :: string
  channel_root_id :: string

text \<open>The store is read only: every operation takes it as an argument and returns no new one.\<close>

record database =
  ChannelMetadata_objects :: "ChannelMetadata list"
  ContentNode_objects :: "ContentNode list"
  File_objects :: "File list"
  LocalFile_objects :: "LocalFile list"

text \<open>
  Following a foreign key: the row of the target table with that primary key, if there is
  one. \<open>channel_root\<close> is \<open>channel.root\<close>, \<open>file_contentnode\<close> is \<open>file.contentnode\<close>.
\<close>

definition channel_root :: "database \<Rightarrow> ChannelMetadata \<Rightarrow> ContentNode option" where
  "channel_root db c = find (\<lambda>n. node_id n = channel_root_id c) (ContentNode_objects db)"

definition file_contentnode :: "database \<Rightarrow> File \<Rightarrow> ContentNode option" where
  "file_contentnode db f = find (\<lambda>n. node_id n = file_contentnode_id f) (ContentNode_objects db)"

text \<open>A condition on a column reached through \<open>root__\<close>: false when there is no root row.\<close>

definition root_has :: "database \<Rightarrow> (ContentNode \<Rightarrow> bool) \<Rightarrow> ChannelMetadata \<Rightarrow> bool" where
  "root_has db P c = (case channel_root db c of None \<Rightarrow> False | Some r \<Rightarrow> P r)"


section \<open>Responses and collaborators\<close>

datatype json = JString string | JArray "json list" | JObject "(string \<times> json) list"

datatype response = HttpResponse json | HttpResponseNotFound json

datatype exn = LookupError | ValueError | ChannelMetadata_DoesNotExist | ContentNode_DoesNotExist

text \<open>
  Modelled from the spec: \<open>error_constants.NOT_FOUND\<close> and \<open>PublicChannelSerializer\<close> are
  imported by \<open>api.py\<close> from modules that are not part of the sources at hand. The
  specification names the first only as the NOT_FOUND code and treats the channel summary as
  an opaque external contract, so both are parameters here.

  Modelled from the spec: the type of the key column of a channel is declared with the
  models, which are not part of the sources at hand; the specification calls the key
  UUID-like. A text given to \<open>filter(pk=...)\<close> or \<open>get(id=...)\<close> is first prepared by the
  key column: \<open>get_db_prep_value\<close> gives the stored form of the key that the text denotes,
  or \<open>None\<close> when the text denotes no key and the query raises \<open>ValueError\<close>. It is a
  parameter as well; \<open>python_uuid_hex\<close> below is the instance the concrete runs use.
\<close>

record externals =
  NOT_FOUND :: json
  PublicChannelSerializer :: "ChannelMetadata \<Rightarrow> json"
  get_db_prep_value :: "string \<Rightarrow> string option"

definition not_found_body :: "externals \<Rightarrow> json" where
  "not_found_body E = JObject [(''id'', NOT_FOUND E), (''metadata'', JObject [(''view'', JString '''')])]"

text \<open>\<open>PublicChannelSerializer(channel_list, many=True).data\<close>: one summary per channel.\<close>

definition serialize_many :: "externals \<Rightarrow> ChannelMetadata list \<Rightarrow> json" where
  "serialize_many E channel_list = JArray (map (PublicChannelSerializer E) channel_list)"


section \<open>Keys read as UUIDs\<close>

text \<open>
  The preparation a UUID key column applies to a text, \<open>uuid.UUID(text).hex\<close> of the Python
  library: the markers \<open>urn:\<close> and \<open>uuid:\<close> are deleted, then braces at both ends, then
  all hyphens; what is left must have 32 characters and be accepted by \<open>int(_, 16)\<close>; the
  result is the number written with 32 lower-case hexadecimal digits.
\<close>

text \<open>\<open>s.replace(old, "")\<close> for a non-empty \<open>old\<close>: its occurrences are deleted from the left.\<close>

fun remove_all :: "string \<Rightarrow> string \<Rightarrow> string" where
  "remove_all old [] = []"
| "remove_all old (c # s) =
     (if old \<noteq> [] \<and> prefix old (c # s) then remove_all old (drop (length old) (c # s))
      else c # remove_all old s)"

text \<open>\<open>s.strip(chars)\<close>: the characters of \<open>chars\<close> are removed at both ends.\<close>

definition strip_chars :: "string \<Rightarrow> string \<Rightarrow> string" where
  "strip_chars chars s =
     rev (dropWhile (\<lambda>c. c \<in> set chars) (rev (dropWhile (\<lambda>c. c \<in> set chars) s)))"

text \<open>
  \<open>int(s, 16)\<close> accepts white space at both ends (code points 9-13, 32, 133, 160), a sign,
  the prefix \<open>0x\<close> or \<open>0X\<close>, and hexadecimal digits separated by single underscores, with
  one underscore allowed after the prefix. No hyphen reaches it here, so only the sign
  \<open>+\<close> is read. \<open>int16_digits\<close> gives the digits it reads, without the underscores.
\<close>

definition int_space :: "char \<Rightarrow> bool" where
  "int_space c = (of_char c \<in> {9, 10, 11, 12, 13, 32, 133, 160 :: nat})"

definition is_hex_digit :: "char \<Rightarrow> bool" where
  "is_hex_digit c = (c \<in> set ''0123456789abcdefABCDEF'')"

fun digits_ok :: "string \<Rightarrow> bool" where
  "digits_ok [] = False"
| "digits_ok [c] = is_hex_digit c"
| "digits_ok (c # d # s) =
     (is_hex_digit c \<and> (if d = CHR ''_'' then digits_ok s else digits_ok (d # s)))"

definition int16_digits :: "string \<Rightarrow> string option" where
  "int16_digits s =
     (let s = rev (dropWhile int_space (rev (dropWhile int_space s)));
          s = (case s of [] \<Rightarrow> s | c # r \<Rightarrow> if c = CHR ''+'' then r else s);
          s = (case s of
                 a # b # r \<Rightarrow>
                   if a = CHR ''0'' \<and> (b = CHR ''x'' \<or> b = CHR ''X'')
                   then (case r of [] \<Rightarrow> r | u # r' \<Rightarrow> if u = CHR ''_'' then r' else r)
                   else s
               | _ \<Rightarrow> s)
      in if digits_ok s then Some (filter (\<lambda>c. c \<noteq> CHR ''_'') s) else None)"

text \<open>
  The number read from at most 32 digits, written with \<open>'%032x'\<close>, is those digits in lower
  case with zeros in front up to 32.
\<close>

definition python_uuid_hex :: "string \<Rightarrow> string option" where
  "python_uuid_hex s =
     (let h = remove_all ''uuid:'' (remove_all ''urn:'' s);
          h = replace_hyphen (strip_chars ''{}'' h)
      in if length h \<noteq> 32 then None
         else (case int16_digits h of
                 None \<Rightarrow> None
               | Some d \<Rightarrow> Some (replicate (32 - length d) CHR ''0'' @ map ascii_lower d)))"


section \<open>Channel filtering\<close>

text \<open>\<open>params.get(key, "")\<close> on the query parameters.\<close>

definition params_get :: "(string \<rightharpoonup> string) \<Rightarrow> string \<Rightarrow> string \<Rightarrow> string" where
  "params_get params key dflt = (case params key of None \<Rightarrow> dflt | Some v \<Rightarrow> v)"

text \<open>\<open>if identifier:\<close> holds for a string that is neither \<open>None\<close> nor empty.\<close>

definition truthy :: "string option \<Rightarrow> bool" where
  "truthy identifier = (case identifier of None \<Rightarrow> False | Some i \<Rightarrow> i \<noteq> [])"

text \<open>
  The content nodes joined with their files (a left outer join: a node without files gives
  one row with no file), as the filter over \<open>lang\<close> and \<open>files__lang\<close> needs it.
\<close>

definition node_files :: "database \<Rightarrow> ContentNode \<Rightarrow> File option list" where
  "node_files db n =
     (case filter (\<lambda>f. file_contentnode_id f = node_id n) (File_objects db) of
        [] \<Rightarrow> [None]
      | fs \<Rightarrow> map Some fs)"

definition matching_tree_ids :: "database \<Rightarrow> string \<Rightarrow> nat list" where
  "matching_tree_ids db language_id =
     [node_tree_id n.
        n \<leftarrow> ContentNode_objects db,
        fo \<leftarrow> node_files db n,
        icontains_null (node_lang_id n) language_id
          \<or> (case fo of None \<Rightarrow> False | Some f \<Rightarrow> icontains_null (file_lang_id f) language_id)]"

text \<open>
  The candidate set the filters start from: \<open>ChannelMetadata.objects.filter(pk=identifier)\<close>
  for a truthy identifier, \<open>ChannelMetadata.objects.all()\<close> otherwise. The query set is
  lazy; when it is evaluated, an identifier that denotes no key raises \<open>ValueError\<close>, and
  one that denotes a key selects the channels stored under it.
\<close>

definition candidate_channels ::
  "externals \<Rightarrow> database \<Rightarrow> string option \<Rightarrow> exn + ChannelMetadata list" where
  "candidate_channels E db identifier =
     (case identifier of
        None \<Rightarrow> Inr (ChannelMetadata_objects db)
      | Some i \<Rightarrow>
          (if truthy identifier
           then (case get_db_prep_value E i of
                   None \<Rightarrow> Inl ValueError
                 | Some k \<Rightarrow> Inr (filter (\<lambda>c. channel_id c = k) (ChannelMetadata_objects db)))
           else Inr (ChannelMetadata_objects db)))"

text \<open>
  The filters of \<open>_get_channel_list_v1\<close> on a candidate set: keyword, language, availability
  of the root, \<open>distinct()\<close>.
\<close>

definition filter_channels ::
  "database \<Rightarrow> (string \<rightharpoonup> string) \<Rightarrow> ChannelMetadata list \<Rightarrow> ChannelMetadata list" where
  "filter_channels db params channels =
     (let keyword = strip (params_get params ''keyword'' '''');
          language_id = strip (params_get params ''language'' '''');
          channels =
            (if keyword \<noteq> ''''
             then filter (\<lambda>c. icontains (channel_name c) keyword
                               \<or> icontains (channel_description c) keyword) channels
             else channels);
          channels =
            (if language_id \<noteq> ''''
             then filter (root_has db (\<lambda>r. icontains_null (node_lang_id r) language_id
                                            \<or> node_tree_id r \<in> set (matching_tree_ids db language_id)))
                    channels
             else channels)
      in remdups (filter (root_has db node_available) channels))"

text \<open>
  \<open>_get_channel_list_v1\<close>: the rows its query set gives when evaluated, or the exception the
  evaluation raises.
\<close>

definition get_channel_list_v1 ::
  "externals \<Rightarrow> database \<Rightarrow> (string \<rightharpoonup> string) \<Rightarrow> string option
     \<Rightarrow> exn + ChannelMetadata list" where
  "get_channel_list_v1 E db params identifier =
     (case candidate_channels E db identifier of
        Inl e \<Rightarrow> Inl e
      | Inr channels \<Rightarrow> Inr (filter_channels db params channels))"

definition get_channel_list ::
  "externals \<Rightarrow> database \<Rightarrow> string \<Rightarrow> (string \<rightharpoonup> string) \<Rightarrow> string option
     \<Rightarrow> exn + ChannelMetadata list" where
  "get_channel_list E db version params identifier =
     (if version = ''v1'' then get_channel_list_v1 E db params identifier
      else Inl LookupError)"


section \<open>The three endpoints\<close>

text \<open>
  An endpoint returns \<open>Inr\<close> of its response, or \<open>Inl\<close> of an exception that no handler of
  the view catches. \<open>except LookupError\<close> catches the unsupported version and nothing else
  that is raised here.
\<close>

definition get_public_channel_list ::
  "externals \<Rightarrow> database \<Rightarrow> string \<Rightarrow> (string \<rightharpoonup> string) \<Rightarrow> exn + response" where
  "get_public_channel_list E db version params =
     (case get_channel_list E db version params None of
        Inl e \<Rightarrow>
          (if e = LookupError then Inr (HttpResponseNotFound (not_found_body E)) else Inl e)
      | Inr channel_list \<Rightarrow> Inr (HttpResponse (serialize_many E channel_list)))"

definition get_public_channel_lookup ::
  "externals \<Rightarrow> database \<Rightarrow> string \<Rightarrow> (string \<rightharpoonup> string) \<Rightarrow> string \<Rightarrow> exn + response" where
  "get_public_channel_lookup E db version params identifier =
     (case get_channel_list E db version params (Some (replace_hyphen (strip identifier))) of
        Inl e \<Rightarrow>
          (if e = LookupError then Inr (HttpResponseNotFound (not_found_body E)) else Inl e)
      | Inr channel_list \<Rightarrow>
          (if channel_list = [] then Inr (HttpResponseNotFound (not_found_body E))
           else Inr (HttpResponse (serialize_many E channel_list))))"

text \<open>
  \<open>ChannelMetadata.objects.get(id=channel_id)\<close>: \<open>ValueError\<close> for a text that denotes no
  key, \<open>DoesNotExist\<close> when no channel is stored under the key.
\<close>

definition ChannelMetadata_get :: "externals \<Rightarrow> database \<Rightarrow> string \<Rightarrow> exn + ChannelMetadata" where
  "ChannelMetadata_get E db cid =
     (case get_db_prep_value E cid of
        None \<Rightarrow> Inl ValueError
      | Some k \<Rightarrow>
          (case find (\<lambda>c. channel_id c = k) (ChannelMetadata_objects db) of
             None \<Rightarrow> Inl ChannelMetadata_DoesNotExist
           | Some c \<Rightarrow> Inr c))"

text \<open>
  The local files joined with the files that reference them and with the content node of
  each such file; one identifier per joined row, then \<open>distinct()\<close>.
\<close>

definition tree_checksums :: "database \<Rightarrow> nat \<Rightarrow> string list" where
  "tree_checksums db tree_id =
     remdups
       [localfile_id lf.
          lf \<leftarrow> LocalFile_objects db,
          f \<leftarrow> File_objects db,
          file_local_file_id f = localfile_id lf,
          localfile_available lf
            \<and> (case file_contentnode db f of None \<Rightarrow> False | Some n \<Rightarrow> node_tree_id n = tree_id)]"

text \<open>The body of the \<open>try\<close> block of the checksum view.\<close>

definition channel_checksums :: "externals \<Rightarrow> database \<Rightarrow> string \<Rightarrow> exn + string list" where
  "channel_checksums E db cid =
     (case ChannelMetadata_get E db cid of
        Inl e \<Rightarrow> Inl e
      | Inr channel \<Rightarrow>
          (case channel_root db channel of
             None \<Rightarrow> Inl ContentNode_DoesNotExist
           | Some r \<Rightarrow> Inr (tree_checksums db (node_tree_id r))))"

definition get_public_file_checksums ::
  "externals \<Rightarrow> database \<Rightarrow> string \<Rightarrow> string \<Rightarrow> exn + response" where
  "get_public_file_checksums E db version cid =
     (if version = ''v1'' then
        (case (case channel_checksums E db cid of
                 Inl e \<Rightarrow> (if e = ChannelMetadata_DoesNotExist then Inr [] else Inl e)
               | Inr checksums \<Rightarrow> Inr checksums) of
           Inl e \<Rightarrow> Inl e
         | Inr checksums \<Rightarrow> Inr (HttpResponse (JArray (map JString checksums))))
      else Inr (HttpResponseNotFound (not_found_body E)))"


section \<open>A small store for concrete runs\<close>

text \<open>
  Three channels. X, "Math Basics", has an available English root in tree 1. Y has a root
  in tree 2 that is not available. Z has an available French root in tree 3; a second node
  of tree 3 is French too but owns a Spanish file. The two files of that node reference
  the same local file.
\<close>

definition channel_X :: ChannelMetadata where
  "channel_X = \<lparr>channel_id = ''0123456789abcdef0123456789abcdef'', channel_name = ''Math Basics'',
                 channel_description = ''Numbers and shapes'', channel_root_id = ''n1''\<rparr>"

definition channel_Y :: ChannelMetadata where
  "channel_Y = \<lparr>channel_id = ''aaaaaaaaaaaaaaaaaaaaaaaaaaaaaaaa'', channel_name = ''History'',
                 channel_description = ''Old things'', channel_root_id = ''n2''\<rparr>"

definition channel_Z :: ChannelMetadata where
  "channel_Z = \<lparr>channel_id = ''ffffffffffffffffffffffffffffffff'', channel_name = ''Sciences'',
                 channel_description = ''Physique'', channel_root_id = ''n3''\<rparr>"

definition example_store :: database where
  "example_store =
     \<lparr>ChannelMetadata_objects = [channel_X, channel_Y, channel_Z],
      ContentNode_objects =
        [\<lparr>node_id = ''n1'', node_tree_id = 1, node_lang_id = Some ''en'', node_available = True\<rparr>,
         \<lparr>node_id = ''n2'', node_tree_id = 2, node_lang_id = None, node_available = False\<rparr>,
         \<lparr>node_id = ''n3'', node_tree_id = 3, node_lang_id = Some ''fr'', node_available = True\<rparr>,
         \<lparr>node_id = ''n4'', node_tree_id = 3, node_lang_id = Some ''fr'', node_available = False\<rparr>],
      File_objects =
        [\<lparr>file_id = ''f1'', file_contentnode_id = ''n4'', file_local_file_id = ''c1'',
          file_lang_id = Some ''es''\<rparr>,
         \<lparr>file_id = ''f2'', file_contentnode_id = ''n4'', file_local_file_id = ''c1'',
          file_lang_id = None\<rparr>,
         \<lparr>file_id = ''f3'', file_contentnode_id = ''n3'', file_local_file_id = ''c2'',
          file_lang_id = None\<rparr>,
         \<lparr>file_id = ''f4'', file_contentnode_id = ''n3'', file_local_file_id = ''c3'',
          file_lang_id = None\<rparr>,
         \<lparr>file_id = ''f5'', file_contentnode_id = ''n1'', file_local_file_id = ''c4'',
          file_lang_id = None\<rparr>],
      LocalFile_objects =
        [\<lparr>localfile_id = ''c1'', localfile_available = True\<rparr>,
         \<lparr>localfile_id = ''c2'', localfile_available = True\<rparr>,
         \<lparr>localfile_id = ''c3'', localfile_available = False\<rparr>,
         \<lparr>localfile_id = ''c4'', localfile_available = True\<rparr>]\<rparr>"

definition example_externals :: externals where
  "example_externals =
     \<lparr>NOT_FOUND = JString ''NOT_FOUND'',
      PublicChannelSerializer = (\<lambda>c. JObject [(''id'', JString (channel_id c)),
                                               (''name'', JString (channel_name c))]),
      get_db_prep_value = python_uuid_hex\<rparr>"


section \<open>Identifiers as the specification words them\<close>

text \<open>
  These three predicates follow the words of the specification, not the code: a canonical
  identifier is 32 hexadecimal digits; \<open>hyphens_inserted w h\<close> says that \<open>h\<close> is \<open>w\<close> with
  hyphens put in at any places; \<open>only_space_or_hyphen\<close> says that a text consists of white
  space and hyphens only.
\<close>

definition canonical_id :: "string \<Rightarrow> bool" where
  "canonical_id w = (length w = 32 \<and> list_all (\<lambda>c. c \<in> set ''0123456789abcdefABCDEF'') w)"

fun hyphens_inserted :: "string \<Rightarrow> string \<Rightarrow> bool" where
  "hyphens_inserted w [] = (w = [])"
| "hyphens_inserted w (c # h) =
     ((c = CHR ''-'' \<and> hyphens_inserted w h)
      \<or> (case w of [] \<Rightarrow> False | d # w' \<Rightarrow> c = d \<and> hyphens_inserted w' h))"

definition only_space_or_hyphen :: "string \<Rightarrow> bool" where
  "only_space_or_hyphen s = list_all (\<lambda>c. isspace c \<or> c = CHR ''-'') s"


section \<open>What the queries select\<close>

lemma root_has_iff:
  "root_has db P c \<longleftrightarrow> (\<exists>r. channel_root db c = Some r \<and> P r)"
  by (simp add: root_has_def split: option.splits)

lemma set_node_files:
  "set (node_files db n) =
     (if \<exists>f \<in> set (File_objects db). file_contentnode_id f = node_id n
      then Some ` {f \<in> set (File_objects db). file_contentnode_id f = node_id n}
      else {None})"
proof (cases "filter (\<lambda>f. file_contentnode_id f = node_id n) (File_objects db)")
  case Nil
  then have "\<not> (\<exists>f \<in> set (File_objects db). file_contentnode_id f = node_id n)"
    by (simp add: filter_empty_conv)
  with Nil show ?thesis by (simp add: node_files_def)
next
  case (Cons a as)
  then have "a \<in> set (filter (\<lambda>f. file_contentnode_id f = node_id n) (File_objects db))"
    by simp
  then have ex: "\<exists>f \<in> set (File_objects db). file_contentnode_id f = node_id n"
    by auto
  have "set (node_files db n) = Some ` set (filter (\<lambda>f. file_contentnode_id f = node_id n) (File_objects db))"
    using Cons by (simp add: node_files_def)
  with ex show ?thesis by auto
qed

lemma set_matching_tree_ids:
  "set (matching_tree_ids db L) =
     {node_tree_id n | n. n \<in> set (ContentNode_objects db) \<and>
        (icontains_null (node_lang_id n) L \<or>
         (\<exists>f \<in> set (File_objects db). file_contentnode_id f = node_id n \<and> icontains_null (file_lang_id f) L))}"
  (is "?l = ?r")
proof (rule set_eqI)
  fix t
  have "t \<in> ?l \<longleftrightarrow> (\<exists>n \<in> set (ContentNode_objects db). \<exists>fo \<in> set (node_files db n).
          t = node_tree_id n \<and> (icontains_null (node_lang_id n) L
          \<or> (case fo of None \<Rightarrow> False | Some f \<Rightarrow> icontains_null (file_lang_id f) L)))"
    by (auto simp: matching_tree_ids_def)
  also have "\<dots> \<longleftrightarrow> t \<in> ?r"
    by (auto simp: set_node_files split: if_splits option.splits)
  finally show "t \<in> ?l \<longleftrightarrow> t \<in> ?r" .
qed

lemma in_filter_channels:
  "c \<in> set (filter_channels db params channels) \<longleftrightarrow>
     c \<in> set channels
     \<and> (strip (params_get params ''keyword'' '''') \<noteq> '''' \<longrightarrow>
          icontains (channel_name c) (strip (params_get params ''keyword'' ''''))
          \<or> icontains (channel_description c) (strip (params_get params ''keyword'' '''')))
     \<and> (strip (params_get params ''language'' '''') \<noteq> '''' \<longrightarrow>
          root_has db (\<lambda>r. icontains_null (node_lang_id r) (strip (params_get params ''language'' ''''))
                 \<or> node_tree_id r \<in> set (matching_tree_ids db (strip (params_get params ''language'' '''')))) c)
     \<and> root_has db node_available c"
  by (auto simp: filter_channels_def Let_def)

lemma candidate_channels_None:
  "candidate_channels E db None = Inr (ChannelMetadata_objects db)"
  by (simp add: candidate_channels_def)

lemma get_channel_list_v1_None:
  "get_channel_list_v1 E db params None = Inr (filter_channels db params (ChannelMetadata_objects db))"
  by (simp add: get_channel_list_v1_def candidate_channels_None)

lemma get_public_channel_list_v1:
  "get_public_channel_list E db ''v1'' params
     = Inr (HttpResponse (JArray (map (PublicChannelSerializer E)
                                    (filter_channels db params (ChannelMetadata_objects db)))))"
  by (simp add: get_public_channel_list_def get_channel_list_def get_channel_list_v1_None
      serialize_many_def)

lemma candidate_channels_cases:
  assumes "candidate_channels E db ident = Inr cs"
  shows "cs = ChannelMetadata_objects db
       \<or> (\<exists>k. cs = filter (\<lambda>c. channel_id c = k) (ChannelMetadata_objects db))"
  using assms by (auto simp: candidate_channels_def split: option.splits if_splits)


section \<open>Unsupported protocol versions\<close>

text \<open>
  C5. For every protocol version other than "v1", the channel listing, the channel lookup
  and the file-checksum endpoint each answer with the not-found response whose body is
  the object with "id" the NOT_FOUND code and "metadata" the object with "view" the empty
  string.
\<close>

theorem unsupported_version_not_found:
  assumes "version \<noteq> ''v1''"
  shows "get_public_channel_list E db version params
           = Inr (HttpResponseNotFound
                    (JObject [(''id'', NOT_FOUND E), (''metadata'', JObject [(''view'', JString '''')])]))
       \<and> get_public_channel_lookup E db version params identifier
           = Inr (HttpResponseNotFound
                    (JObject [(''id'', NOT_FOUND E), (''metadata'', JObject [(''view'', JString '''')])]))
       \<and> get_public_file_checksums E db version cid
           = Inr (HttpResponseNotFound
                    (JObject [(''id'', NOT_FOUND E), (''metadata'', JObject [(''view'', JString '''')])]))"
  using assms
  by (simp add: get_public_channel_list_def get_public_channel_lookup_def
      get_public_file_checksums_def get_channel_list_def not_found_body_def)

theorem unsupported_version_not_found_witness:
  "get_public_channel_list example_externals example_store ''v2'' Map.empty
     = Inr (HttpResponseNotFound
              (JObject [(''id'', JString ''NOT_FOUND''), (''metadata'', JObject [(''view'', JString '''')])]))
   \<and> get_public_channel_lookup example_externals example_store ''v2'' Map.empty
         ''0123456789abcdef0123456789abcdef''
     = Inr (HttpResponseNotFound
              (JObject [(''id'', JString ''NOT_FOUND''), (''metadata'', JObject [(''view'', JString '''')])]))
   \<and> get_public_file_checksums example_externals example_store ''v2''
         ''0123456789abcdef0123456789abcdef''
     = Inr (HttpResponseNotFound
              (JObject [(''id'', JString ''NOT_FOUND''), (''metadata'', JObject [(''view'', JString '''')])]))"
proof -
  have v: "''v2'' \<noteq> ''v1''" by simp
  have nf: "NOT_FOUND example_externals = JString ''NOT_FOUND''"
    by (simp add: example_externals_def)
  show ?thesis
    using unsupported_version_not_found [OF v, of example_externals example_store Map.empty
        "''0123456789abcdef0123456789abcdef''" "''0123456789abcdef0123456789abcdef''"]
    by (simp only: nf)
qed


section \<open>Listing without filters\<close>

text \<open>
  C3. With neither a keyword nor a language among the query parameters (the listing
  endpoint passes no identifier), the v1 listing answers with the summaries of the selected
  channels, and a channel is selected if and only if it is a stored channel whose root
  content node has \<open>available = true\<close>.
\<close>

theorem unfiltered_listing_iff_root_available:
  assumes "params ''keyword'' = None" and "params ''language'' = None"
  shows "get_public_channel_list E db ''v1'' params
           = Inr (HttpResponse (JArray (map (PublicChannelSerializer E)
                                          (filter_channels db params (ChannelMetadata_objects db)))))
       \<and> get_channel_list_v1 E db params None
           = Inr (filter_channels db params (ChannelMetadata_objects db))
       \<and> (c \<in> set (filter_channels db params (ChannelMetadata_objects db)) \<longleftrightarrow>
            c \<in> set (ChannelMetadata_objects db)
            \<and> (\<exists>r. channel_root db c = Some r \<and> node_available r))"
proof -
  have kw: "strip (params_get params ''keyword'' '''') = ''''"
    and lang: "strip (params_get params ''language'' '''') = ''''"
    using assms by (simp_all add: params_get_def strip_def)
  have "c \<in> set (filter_channels db params (ChannelMetadata_objects db)) \<longleftrightarrow>
            c \<in> set (ChannelMetadata_objects db)
            \<and> (\<exists>r. channel_root db c = Some r \<and> node_available r)"
    by (simp add: in_filter_channels kw lang root_has_iff)
  with get_public_channel_list_v1 [of E db params] get_channel_list_v1_None [of E db params]
  show ?thesis by simp
qed

theorem unfiltered_listing_iff_root_available_witness:
  "channel_X \<in> set (filter_channels example_store Map.empty (ChannelMetadata_objects example_store))
   \<and> channel_Y \<notin> set (filter_channels example_store Map.empty (ChannelMetadata_objects example_store))
   \<and> get_public_channel_list example_externals example_store ''v1'' Map.empty
       = Inr (HttpResponse (JArray (map (PublicChannelSerializer example_externals)
                (filter_channels example_store Map.empty (ChannelMetadata_objects example_store)))))"
proof -
  have e: "(Map.empty :: string \<rightharpoonup> string) ''keyword'' = None"
      "(Map.empty :: string \<rightharpoonup> string) ''language'' = None"
    by simp_all
  note t = unfiltered_listing_iff_root_available [OF e, of example_externals example_store]
  have x: "channel_X \<in> set (ChannelMetadata_objects example_store)"
     and y: "channel_Y \<in> set (ChannelMetadata_objects example_store)"
    by (simp_all add: example_store_def)
  have "root_has example_store node_available channel_X" by code_simp
  then have rx: "\<exists>r. channel_root example_store channel_X = Some r \<and> node_available r"
    by (simp add: root_has_iff)
  have "\<not> root_has example_store node_available channel_Y" by code_simp
  then have ry: "\<not> (\<exists>r. channel_root example_store channel_Y = Some r \<and> node_available r)"
    by (simp add: root_has_iff)
  from t [of channel_X] t [of channel_Y] x y rx ry show ?thesis by blast
qed


section \<open>Listing by keyword\<close>

text \<open>
  C2. With a keyword \<open>k\<close> that is not empty once its surrounding white space is trimmed
  (and no language), a channel is in the v1 listing if and only if it is a stored channel,
  the trimmed keyword occurs, letter case ignored, as a substring of its name or of its
  description, and its root content node has \<open>available = true\<close>.
\<close>

theorem keyword_listing_iff_match_and_root_available:
  assumes "params ''keyword'' = Some k" and "strip k \<noteq> ''''" and "params ''language'' = None"
  shows "get_public_channel_list E db ''v1'' params
           = Inr (HttpResponse (JArray (map (PublicChannelSerializer E)
                                          (filter_channels db params (ChannelMetadata_objects db)))))
       \<and> get_channel_list_v1 E db params None
           = Inr (filter_channels db params (ChannelMetadata_objects db))
       \<and> (c \<in> set (filter_channels db params (ChannelMetadata_objects db)) \<longleftrightarrow>
            c \<in> set (ChannelMetadata_objects db)
            \<and> (icontains (channel_name c) (strip k) \<or> icontains (channel_description c) (strip k))
            \<and> (\<exists>r. channel_root db c = Some r \<and> node_available r))"
proof -
  have kw: "strip (params_get params ''keyword'' '''') = strip k"
    and lang: "strip (params_get params ''language'' '''') = ''''"
    using assms by (simp_all add: params_get_def strip_def)
  have "c \<in> set (filter_channels db params (ChannelMetadata_objects db)) \<longleftrightarrow>
            c \<in> set (ChannelMetadata_objects db)
            \<and> (icontains (channel_name c) (strip k) \<or> icontains (channel_description c) (strip k))
            \<and> (\<exists>r. channel_root db c = Some r \<and> node_available r)"
    using assms(2) by (simp add: in_filter_channels kw lang root_has_iff)
  with get_public_channel_list_v1 [of E db params] get_channel_list_v1_None [of E db params]
  show ?thesis by simp
qed

theorem keyword_listing_iff_match_and_root_available_witness:
  "channel_X \<in> set (filter_channels example_store [''keyword'' \<mapsto> '' math '']
                       (ChannelMetadata_objects example_store))
   \<and> channel_Z \<notin> set (filter_channels example_store [''keyword'' \<mapsto> '' math '']
                          (ChannelMetadata_objects example_store))
   \<and> channel_Y \<notin> set (filter_channels example_store [''keyword'' \<mapsto> ''old'']
                          (ChannelMetadata_objects example_store))
   \<and> get_channel_list_v1 example_externals example_store [''keyword'' \<mapsto> '' math ''] None
       = Inr (filter_channels example_store [''keyword'' \<mapsto> '' math '']
                (ChannelMetadata_objects example_store))"
proof -
  have k1: "[''keyword'' \<mapsto> '' math ''] ''keyword'' = Some '' math ''"
       "strip '' math '' \<noteq> ''''" "[''keyword'' \<mapsto> '' math ''] ''language'' = None"
    by (simp, code_simp, simp)
  have k2: "[''keyword'' \<mapsto> ''old''] ''keyword'' = Some ''old''"
       "strip ''old'' \<noteq> ''''" "[''keyword'' \<mapsto> ''old''] ''language'' = None"
    by (simp, code_simp, simp)
  note t1 = keyword_listing_iff_match_and_root_available [OF k1, of example_externals example_store]
  note t2 = keyword_listing_iff_match_and_root_available [OF k2, of example_externals example_store]
  have x: "channel_X \<in> set (ChannelMetadata_objects example_store)"
    by (simp add: example_store_def)
  have mx: "icontains (channel_name channel_X) (strip '' math '')" by code_simp
  have "root_has example_store node_available channel_X" by code_simp
  then have rx: "\<exists>r. channel_root example_store channel_X = Some r \<and> node_available r"
    by (simp add: root_has_iff)
  have mz: "\<not> (icontains (channel_name channel_Z) (strip '' math '')
              \<or> icontains (channel_description channel_Z) (strip '' math ''))"
    by code_simp
  have "\<not> root_has example_store node_available channel_Y" by code_simp
  then have ry: "\<not> (\<exists>r. channel_root example_store channel_Y = Some r \<and> node_available r)"
    by (simp add: root_has_iff)
  from t1 [of channel_X] t1 [of channel_Z] t2 [of channel_Y] x mx rx mz ry show ?thesis by blast
qed


section \<open>Listing by language\<close>

text \<open>
  C1. With a language tag \<open>L\<close> that is not empty once trimmed, the v1 language filter
  retains a channel (the channel is selected with the language parameter, among those
  selected by the same request without it) if and only if the language tag of its root
  content node contains the trimmed tag as a substring, letter case ignored, or the tree-id
  of its root is the tree-id of some content node whose own language tag contains it or
  which has a file whose language tag contains it. In particular a node that matches only
  through the language of one of its files brings in the channel rooted in its tree. This
  holds for every request whose candidate set \<open>cs\<close> evaluates, with or without identifier.
\<close>

theorem language_filter_retains_iff:
  assumes "params ''language'' = Some L" and "strip L \<noteq> ''''"
    and "candidate_channels E db ident = Inr cs"
  shows "get_channel_list_v1 E db params ident = Inr (filter_channels db params cs)
       \<and> get_channel_list_v1 E db (params(''language'' := None)) ident
           = Inr (filter_channels db (params(''language'' := None)) cs)
       \<and> (c \<in> set (filter_channels db params cs) \<longleftrightarrow>
            c \<in> set (filter_channels db (params(''language'' := None)) cs)
            \<and> (\<exists>r. channel_root db c = Some r
                 \<and> (icontains_null (node_lang_id r) (strip L)
                      \<or> node_tree_id r \<in>
                          {node_tree_id n | n. n \<in> set (ContentNode_objects db)
                             \<and> (icontains_null (node_lang_id n) (strip L)
                                  \<or> (\<exists>f \<in> set (File_objects db).
                                        file_contentnode_id f = node_id n
                                        \<and> icontains_null (file_lang_id f) (strip L)))})))
       \<and> (c \<in> set (filter_channels db (params(''language'' := None)) cs)
            \<and> channel_root db c = Some r \<and> n \<in> set (ContentNode_objects db)
            \<and> node_tree_id n = node_tree_id r \<and> f \<in> set (File_objects db)
            \<and> file_contentnode_id f = node_id n \<and> icontains_null (file_lang_id f) (strip L)
          \<longrightarrow> c \<in> set (filter_channels db params cs))"
proof -
  let ?p = "params(''language'' := None)"
  let ?T = "{node_tree_id n | n. n \<in> set (ContentNode_objects db)
                             \<and> (icontains_null (node_lang_id n) (strip L)
                                  \<or> (\<exists>f \<in> set (File_objects db).
                                        file_contentnode_id f = node_id n
                                        \<and> icontains_null (file_lang_id f) (strip L)))}"
  have lang: "strip (params_get params ''language'' '''') = strip L"
    using assms(1) by (simp add: params_get_def)
  have kw: "params_get ?p ''keyword'' '''' = params_get params ''keyword'' ''''"
    by (simp add: params_get_def)
  have nolang: "strip (params_get ?p ''language'' '''') = ''''"
    by (simp add: params_get_def strip_def)
  have ev: "get_channel_list_v1 E db params ident = Inr (filter_channels db params cs)"
      "get_channel_list_v1 E db ?p ident = Inr (filter_channels db ?p cs)"
    using assms(3) by (simp_all add: get_channel_list_v1_def)
  have main: "c \<in> set (filter_channels db params cs) \<longleftrightarrow>
            c \<in> set (filter_channels db ?p cs)
            \<and> (\<exists>r. channel_root db c = Some r
                 \<and> (icontains_null (node_lang_id r) (strip L) \<or> node_tree_id r \<in> ?T))"
    unfolding in_filter_channels [of c db params] in_filter_channels [of c db ?p]
      lang kw nolang root_has_iff set_matching_tree_ids
    using assms(2) by auto
  have "c \<in> set (filter_channels db params cs)"
    if "c \<in> set (filter_channels db ?p cs)" "channel_root db c = Some r"
       "n \<in> set (ContentNode_objects db)" "node_tree_id n = node_tree_id r"
       "f \<in> set (File_objects db)" "file_contentnode_id f = node_id n"
       "icontains_null (file_lang_id f) (strip L)"
  proof -
    from that(3-7) have "node_tree_id r \<in> ?T" by (metis (mono_tags, lifting) mem_Collect_eq)
    with that(1,2) main show ?thesis by simp
  qed
  with main ev show ?thesis by blast
qed

theorem language_filter_retains_iff_witness:
  "get_channel_list_v1 example_externals example_store [''language'' \<mapsto> '' es''] None
     = Inr (filter_channels example_store [''language'' \<mapsto> '' es'']
              (ChannelMetadata_objects example_store))
   \<and> channel_Z \<in> set (filter_channels example_store [''language'' \<mapsto> '' es'']
                         (ChannelMetadata_objects example_store))
   \<and> channel_X \<in> set (filter_channels example_store [''language'' \<mapsto> ''EN'']
                         (ChannelMetadata_objects example_store))"
proof -
  let ?pe = "[''language'' \<mapsto> '' es'']"
  let ?pn = "[''language'' \<mapsto> ''EN'']"
  let ?all = "ChannelMetadata_objects example_store"
  let ?n4 = "\<lparr>node_id = ''n4'', node_tree_id = 3, node_lang_id = Some ''fr'', node_available = False\<rparr>"
  let ?n3 = "\<lparr>node_id = ''n3'', node_tree_id = 3, node_lang_id = Some ''fr'', node_available = True\<rparr>"
  let ?n1 = "\<lparr>node_id = ''n1'', node_tree_id = 1, node_lang_id = Some ''en'', node_available = True\<rparr>"
  let ?f1 = "\<lparr>file_id = ''f1'', file_contentnode_id = ''n4'', file_local_file_id = ''c1'',
          file_lang_id = Some ''es''\<rparr>"
  have h1: "?pe ''language'' = Some '' es''" "strip '' es'' \<noteq> ''''"
    by (simp, code_simp)
  have h2: "?pn ''language'' = Some ''EN''" "strip ''EN'' \<noteq> ''''"
    by (simp, code_simp)
  have cand: "candidate_channels example_externals example_store None = Inr ?all"
    by (rule candidate_channels_None)
  have e1: "?pe(''language'' := None) = Map.empty" and e2: "?pn(''language'' := None) = Map.empty"
    by simp_all
  have z: "channel_Z \<in> set (filter_channels example_store Map.empty ?all)"
    and x: "channel_X \<in> set (filter_channels example_store Map.empty ?all)"
    by code_simp+
  have rz: "channel_root example_store channel_Z = Some ?n3"
    and rx: "channel_root example_store channel_X = Some ?n1"
    by code_simp+
  have n4: "?n4 \<in> set (ContentNode_objects example_store)"
    and f1: "?f1 \<in> set (File_objects example_store)"
    by (simp_all add: example_store_def)
  have own: "\<not> icontains_null (node_lang_id ?n4) (strip '' es'')"
    and fm: "icontains_null (file_lang_id ?f1) (strip '' es'')"
    and xm: "icontains_null (node_lang_id ?n1) (strip ''EN'')"
    by code_simp+
  note t1 = language_filter_retains_iff [where params = ?pe and L = "'' es''" and c = channel_Z
        and db = example_store and ident = None and r = ?n3 and n = ?n4 and f = ?f1
        and E = example_externals and cs = ?all, OF h1 cand]
  note t2 = language_filter_retains_iff [where params = ?pn and L = "''EN''" and c = channel_X
        and db = example_store and ident = None and r = ?n1 and n = ?n1 and f = ?f1
        and E = example_externals and cs = ?all, OF h2 cand]
  have "channel_Z \<in> set (filter_channels example_store ?pe ?all)"
    using t1 [THEN conjunct2, THEN conjunct2, THEN conjunct2] z rz n4 f1 fm
    unfolding e1 by simp
  moreover have "channel_X \<in> set (filter_channels example_store ?pn ?all)"
    using t2 [THEN conjunct2, THEN conjunct2, THEN conjunct1] x rx xm
    unfolding e2 by simp
  moreover have "get_channel_list_v1 example_externals example_store ?pe None
     = Inr (filter_channels example_store ?pe ?all)"
    using t1 [THEN conjunct1] .
  ultimately show ?thesis by simp
qed


section \<open>Distinct results\<close>

text \<open>
  C9. No channel appears more than once in the result of a channel listing: the rows are
  pairwise different, and where the stored channels have pairwise different primary keys
  so have the listed ones. This holds whichever way the language criterion selected a
  channel, the root-language match, the tree-id match or both, and for every request whose
  candidate set \<open>cs\<close> evaluates.
\<close>

theorem listing_has_no_repeated_channel:
  assumes "candidate_channels E db ident = Inr cs"
  shows "get_channel_list_v1 E db params ident = Inr (filter_channels db params cs)
       \<and> distinct (filter_channels db params cs)
       \<and> (distinct (map channel_id (ChannelMetadata_objects db))
            \<longrightarrow> distinct (map channel_id (filter_channels db params cs)))"
proof -
  have sub: "distinct (map channel_id (filter P xs))" if "distinct (map channel_id xs)"
    for P and xs :: "ChannelMetadata list"
    using that by (simp add: distinct_map_filter)
  have "distinct (map channel_id (filter_channels db params cs))"
    if d: "distinct (map channel_id (ChannelMetadata_objects db))"
  proof -
    from candidate_channels_cases [OF assms] d have dc: "distinct (map channel_id cs)"
      by (auto simp: sub)
    then have c: "distinct cs" by (simp add: distinct_map)
    from dc c show ?thesis
      by (simp add: filter_channels_def Let_def sub distinct_remdups_id)
  qed
  moreover have "get_channel_list_v1 E db params ident = Inr (filter_channels db params cs)"
    using assms by (simp add: get_channel_list_v1_def)
  moreover have "distinct (filter_channels db params cs)"
    by (simp add: filter_channels_def Let_def)
  ultimately show ?thesis by simp
qed

theorem listing_has_no_repeated_channel_witness:
  "root_has example_store (\<lambda>r. icontains_null (node_lang_id r) ''en'') channel_X
   \<and> root_has example_store
         (\<lambda>r. node_tree_id r \<in> set (matching_tree_ids example_store ''en'')) channel_X
   \<and> get_channel_list_v1 example_externals example_store [''language'' \<mapsto> ''en''] None
       = Inr (filter_channels example_store [''language'' \<mapsto> ''en'']
                (ChannelMetadata_objects example_store))
   \<and> channel_X \<in> set (filter_channels example_store [''language'' \<mapsto> ''en'']
                         (ChannelMetadata_objects example_store))
   \<and> distinct (filter_channels example_store [''language'' \<mapsto> ''en'']
                  (ChannelMetadata_objects example_store))
   \<and> distinct (map channel_id (filter_channels example_store [''language'' \<mapsto> ''en'']
                                  (ChannelMetadata_objects example_store)))"
proof -
  have pk: "distinct (map channel_id (ChannelMetadata_objects example_store))"
    by code_simp
  have a: "root_has example_store (\<lambda>r. icontains_null (node_lang_id r) ''en'') channel_X"
    by code_simp
  have b: "root_has example_store
         (\<lambda>r. node_tree_id r \<in> set (matching_tree_ids example_store ''en'')) channel_X"
    by code_simp
  have c: "channel_X \<in> set (filter_channels example_store [''language'' \<mapsto> ''en'']
                              (ChannelMetadata_objects example_store))"
    by code_simp
  have cand: "candidate_channels example_externals example_store None
                = Inr (ChannelMetadata_objects example_store)"
    by (rule candidate_channels_None)
  from listing_has_no_repeated_channel [OF cand, of "[''language'' \<mapsto> ''en'']"] pk a b c
  show ?thesis by simp
qed


section \<open>File checksums of a channel\<close>





text \<open>
  C7, as amended. For version "v1", when the given identifier denotes a key and no channel
  is stored under that key, the file-checksum endpoint answers with a success response
  holding the empty array; this is not the not-found response, which is what the same
  request gets under any other version. When the identifier denotes no key, the lookup
  raises \<open>ValueError\<close>, which the view does not catch.
\<close>

theorem missing_channel_gives_empty_checksums:
  "(get_db_prep_value E cid = Some k \<and> (\<forall>c \<in> set (ChannelMetadata_objects db). channel_id c \<noteq> k)
      \<longrightarrow> get_public_file_checksums E db ''v1'' cid = Inr (HttpResponse (JArray []))
          \<and> get_public_file_checksums E db ''v1'' cid
              \<noteq> Inr (HttpResponseNotFound
                       (JObject [(''id'', NOT_FOUND E), (''metadata'', JObject [(''view'', JString '''')])]))
          \<and> (version \<noteq> ''v1'' \<longrightarrow>
               get_public_file_checksums E db version cid
                 = Inr (HttpResponseNotFound
                          (JObject [(''id'', NOT_FOUND E), (''metadata'', JObject [(''view'', JString '''')])]))))
   \<and> (get_db_prep_value E cid = None
        \<longrightarrow> get_public_file_checksums E db ''v1'' cid = Inl ValueError)"
proof -
  have a: "get_public_file_checksums E db ''v1'' cid = Inr (HttpResponse (JArray []))"
    if "get_db_prep_value E cid = Some k" "\<forall>c \<in> set (ChannelMetadata_objects db). channel_id c \<noteq> k"
  proof -
    from that(2) have "find (\<lambda>c. channel_id c = k) (ChannelMetadata_objects db) = None"
      by (simp add: find_None_iff)
    with that(1) have "channel_checksums E db cid = Inl ChannelMetadata_DoesNotExist"
      by (simp add: channel_checksums_def ChannelMetadata_get_def)
    then show ?thesis by (simp add: get_public_file_checksums_def)
  qed
  have b: "get_public_file_checksums E db ''v1'' cid = Inl ValueError"
    if "get_db_prep_value E cid = None"
    using that
    by (simp add: get_public_file_checksums_def channel_checksums_def ChannelMetadata_get_def)
  have c: "get_public_file_checksums E db version cid
                 = Inr (HttpResponseNotFound
                          (JObject [(''id'', NOT_FOUND E), (''metadata'', JObject [(''view'', JString '''')])]))"
    if "version \<noteq> ''v1''"
    using that by (simp add: get_public_file_checksums_def not_found_body_def)
  from a b c show ?thesis by simp
qed

theorem missing_channel_gives_empty_checksums_witness:
  "get_public_file_checksums example_externals example_store ''v1''
      ''00000000-0000-0000-0000-000000000000'' = Inr (HttpResponse (JArray []))
   \<and> get_public_file_checksums example_externals example_store ''v2''
       ''00000000-0000-0000-0000-000000000000''
       = Inr (HttpResponseNotFound
                (JObject [(''id'', JString ''NOT_FOUND''), (''metadata'', JObject [(''view'', JString '''')])]))
   \<and> get_public_file_checksums example_externals example_store ''v1'' ''no such channel''
       = Inl ValueError"
proof -
  have p: "get_db_prep_value example_externals ''00000000-0000-0000-0000-000000000000''
             = Some ''00000000000000000000000000000000''"
    by code_simp
  have h: "\<forall>c \<in> set (ChannelMetadata_objects example_store).
             channel_id c \<noteq> ''00000000000000000000000000000000''"
    by code_simp
  have q: "get_db_prep_value example_externals ''no such channel'' = None"
    by code_simp
  have v: "''v2'' \<noteq> ''v1''" by simp
  have nf: "NOT_FOUND example_externals = JString ''NOT_FOUND''"
    by (simp add: example_externals_def)
  from missing_channel_gives_empty_checksums
         [of example_externals "''00000000-0000-0000-0000-000000000000''"
             "''00000000000000000000000000000000''" example_store "''v2''", THEN conjunct1]
       missing_channel_gives_empty_checksums
         [of example_externals "''no such channel''" _ example_store, THEN conjunct2]
       p h q v
  show ?thesis by (simp add: nf)
qed

text \<open>
  No channel has the identifier "0000", and the identifier denotes no key: the endpoint
  raises \<open>ValueError\<close> where the claim has a success response with the empty array.
\<close>

theorem checksums_malformed_identifier_counterexample:
  "''0000'' \<notin> set (map channel_id (ChannelMetadata_objects example_store))
   \<and> get_public_file_checksums example_externals example_store ''v1'' ''0000'' = Inl ValueError
   \<and> get_public_file_checksums example_externals example_store ''v1'' ''0000''
       \<noteq> Inr (HttpResponse (JArray []))"
  by code_simp


section \<open>Empty results of lookup and listing\<close>

text \<open>
  C6. With version "v1": when the identifier, keyword, language and root-availability
  filters together select no channel, the lookup endpoint answers with the not-found
  response, also when a channel with that identifier is stored; when the listing endpoint
  selects no channel, it answers with a success response holding the empty array.
\<close>

theorem empty_lookup_not_found_empty_listing_success:
  "(get_channel_list_v1 E db params (Some (replace_hyphen (strip ident))) = Inr [] \<longrightarrow>
      get_public_channel_lookup E db ''v1'' params ident
        = Inr (HttpResponseNotFound
                 (JObject [(''id'', NOT_FOUND E), (''metadata'', JObject [(''view'', JString '''')])])))
   \<and> (get_channel_list_v1 E db params None = Inr [] \<longrightarrow>
        get_public_channel_list E db ''v1'' params = Inr (HttpResponse (JArray [])))"
  by (simp add: get_public_channel_lookup_def get_public_channel_list_def get_channel_list_def
      not_found_body_def serialize_many_def)

theorem empty_lookup_not_found_empty_listing_success_witness:
  "candidate_channels example_externals example_store
       (Some (replace_hyphen (strip ''aaaaaaaaaaaaaaaaaaaaaaaaaaaaaaaa''))) = Inr [channel_Y]
   \<and> get_public_channel_lookup example_externals example_store ''v1'' Map.empty
         ''aaaaaaaaaaaaaaaaaaaaaaaaaaaaaaaa''
       = Inr (HttpResponseNotFound
                (JObject [(''id'', JString ''NOT_FOUND''), (''metadata'', JObject [(''view'', JString '''')])]))
   \<and> get_public_channel_list example_externals example_store ''v1'' [''keyword'' \<mapsto> ''zebra'']
       = Inr (HttpResponse (JArray []))"
proof -
  have y: "candidate_channels example_externals example_store
             (Some (replace_hyphen (strip ''aaaaaaaaaaaaaaaaaaaaaaaaaaaaaaaa''))) = Inr [channel_Y]"
    by code_simp
  have a: "get_channel_list_v1 example_externals example_store Map.empty
             (Some (replace_hyphen (strip ''aaaaaaaaaaaaaaaaaaaaaaaaaaaaaaaa''))) = Inr []"
    by code_simp
  have b: "get_channel_list_v1 example_externals example_store [''keyword'' \<mapsto> ''zebra''] None = Inr []"
    by code_simp
  have nf: "NOT_FOUND example_externals = JString ''NOT_FOUND''"
    by (simp add: example_externals_def)
  from empty_lookup_not_found_empty_listing_success
         [of example_externals example_store Map.empty "''aaaaaaaaaaaaaaaaaaaaaaaaaaaaaaaa''", THEN conjunct1]
       empty_lookup_not_found_empty_listing_success
         [of example_externals example_store "[''keyword'' \<mapsto> ''zebra'']" "''aaaaaaaaaaaaaaaaaaaaaaaaaaaaaaaa''",
          THEN conjunct2]
       y a b
  show ?thesis by (simp only: nf simp_thms)
qed


section \<open>Lookup by identifier\<close>

lemma dropWhile_none: "\<forall>c \<in> set s. \<not> P c \<Longrightarrow> dropWhile P s = s"
  by (cases s) simp_all

lemma strip_no_space: "\<forall>c \<in> set s. \<not> isspace c \<Longrightarrow> strip s = s"
proof -
  assume a: "\<forall>c \<in> set s. \<not> isspace c"
  then have "dropWhile isspace s = s" by (rule dropWhile_none)
  moreover from a have "dropWhile isspace (rev s) = rev s" by (intro dropWhile_none) simp
  ultimately show ?thesis by (simp add: strip_def)
qed

lemma hyphens_inserted_set: "hyphens_inserted w h \<Longrightarrow> set h \<subseteq> insert CHR ''-'' (set w)"
proof (induction h arbitrary: w)
  case Nil
  then show ?case by simp
next
  case (Cons c h)
  show ?case
  proof (cases "c = CHR ''-'' \<and> hyphens_inserted w h")
    case True
    with Cons.IH [of w] show ?thesis by auto
  next
    case False
    with Cons.prems obtain w' where w: "w = c # w'" and h: "hyphens_inserted w' h"
      by (auto split: list.splits)
    from Cons.IH [OF h] w show ?thesis by auto
  qed
qed

lemma hyphens_inserted_replace:
  "hyphens_inserted w h \<Longrightarrow> CHR ''-'' \<notin> set w \<Longrightarrow> replace_hyphen h = w"
  by (induction h arbitrary: w) (auto simp: replace_hyphen_def split: list.splits)

lemma canonical_id_chars: "canonical_id w \<Longrightarrow> c \<in> set w \<Longrightarrow> c \<noteq> CHR ''-'' \<and> \<not> isspace c"
proof -
  assume "canonical_id w" "c \<in> set w"
  then have "c \<in> set ''0123456789abcdefABCDEF''"
    by (auto simp: canonical_id_def list_all_iff)
  then show ?thesis by (auto simp: isspace_def)
qed

lemma normalise_hyphenated:
  assumes "canonical_id w" "hyphens_inserted w h"
  shows "replace_hyphen (strip h) = w" "replace_hyphen (strip w) = w"
proof -
  from assms(1) have nh: "CHR ''-'' \<notin> set w" and ns: "\<forall>c \<in> set w. \<not> isspace c"
    using canonical_id_chars by blast+
  have "\<not> isspace CHR ''-''" by (simp add: isspace_def)
  with ns hyphens_inserted_set [OF assms(2)] have "\<forall>c \<in> set h. \<not> isspace c" by auto
  then have "strip h = h" by (rule strip_no_space)
  then show "replace_hyphen (strip h) = w"
    using hyphens_inserted_replace [OF assms(2) nh] by simp
  from ns have "strip w = w" by (rule strip_no_space)
  moreover from nh have "replace_hyphen w = w" by (auto simp: replace_hyphen_def filter_id_conv)
  ultimately show "replace_hyphen (strip w) = w" by simp
qed

lemma length_filter_pk:
  "distinct (map channel_id cs) \<Longrightarrow> length (filter (\<lambda>c. channel_id c = k) cs) \<le> 1"
proof (induction cs)
  case Nil
  then show ?case by simp
next
  case (Cons a cs)
  show ?case
  proof (cases "channel_id a = k")
    case True
    with Cons.prems have "k \<notin> channel_id ` set cs" by simp
    then have "filter (\<lambda>c. channel_id c = k) cs = []"
      by (auto simp: filter_empty_conv)
    with True show ?thesis by simp
  next
    case False
    with Cons show ?thesis by simp
  qed
qed

lemma filter_pk_single:
  "distinct (map channel_id cs) \<Longrightarrow> c \<in> set cs
     \<Longrightarrow> filter (\<lambda>x. channel_id x = channel_id c) cs = [c]"
proof (induction cs)
  case Nil
  then show ?case by simp
next
  case (Cons a cs)
  show ?case
  proof (cases "a = c")
    case True
    with Cons.prems have "channel_id c \<notin> channel_id ` set cs" by simp
    then have "filter (\<lambda>x. channel_id x = channel_id c) cs = []"
      by (auto simp: filter_empty_conv) (metis imageI)
    with True show ?thesis by simp
  next
    case False
    with Cons.prems have in_cs: "c \<in> set cs" by simp
    with Cons.prems have "channel_id a \<noteq> channel_id c" by auto
    with Cons in_cs show ?thesis by simp
  qed
qed

lemma length_filter_channels: "length (filter_channels db params cs) \<le> length cs"
proof -
  have f: "length (filter P xs) \<le> length xs" for P and xs :: "ChannelMetadata list" by simp
  have r: "length (remdups xs) \<le> length xs" for xs :: "ChannelMetadata list"
    by (rule length_remdups_leq)
  show ?thesis
    unfolding filter_channels_def Let_def
    by (auto intro: order_trans [OF r] order_trans [OF f])
qed

lemma filter_channels_unfiltered_single:
  assumes "params ''keyword'' = None" "params ''language'' = None"
    "channel_root db c = Some r" "node_available r"
  shows "filter_channels db params [c] = [c]"
proof -
  have "strip (params_get params ''keyword'' '''') = ''''"
    "strip (params_get params ''language'' '''') = ''''"
    using assms(1,2) by (simp_all add: params_get_def strip_def)
  moreover have "root_has db node_available c"
    using assms(3,4) by (simp add: root_has_def)
  ultimately show ?thesis by (simp add: filter_channels_def)
qed


subsection \<open>A canonical identifier denotes itself\<close>

lemma remove_all_absent: "a \<notin> set s \<Longrightarrow> remove_all (a # t) s = s"
proof (induction s)
  case Nil
  then show ?case by simp
next
  case (Cons c s)
  then have "\<not> prefix (a # t) (c # s)" by auto
  with Cons show ?case by simp
qed

lemma hex_digit_is_plain:
  assumes "is_hex_digit c"
  shows "\<not> int_space c" "c \<noteq> CHR ''-''" "c \<noteq> CHR ''_''" "c \<noteq> CHR ''+''" "c \<noteq> CHR ''x''"
    "c \<noteq> CHR ''X''" "c \<noteq> CHR ''u''" "c \<noteq> CHR ''{''" "c \<noteq> CHR ''}''"
proof -
  from assms have "c \<in> set ''0123456789abcdefABCDEF''" by (simp only: is_hex_digit_def)
  then show "\<not> int_space c" "c \<noteq> CHR ''-''" "c \<noteq> CHR ''_''" "c \<noteq> CHR ''+''" "c \<noteq> CHR ''x''"
    "c \<noteq> CHR ''X''" "c \<noteq> CHR ''u''" "c \<noteq> CHR ''{''" "c \<noteq> CHR ''}''"
    by (auto simp: int_space_def)
qed

lemma digits_ok_hex: "s \<noteq> [] \<Longrightarrow> \<forall>c \<in> set s. is_hex_digit c \<Longrightarrow> digits_ok s"
proof (induction s rule: digits_ok.induct)
  case 1
  then show ?case by simp
next
  case (2 c)
  then show ?case by simp
next
  case (3 c d s)
  from "3.prems" have "is_hex_digit d" by simp
  then have "d \<noteq> CHR ''_''" by (rule hex_digit_is_plain)
  with 3 show ?case by simp
qed

lemma python_uuid_hex_canonical:
  assumes "canonical_id w"
  shows "python_uuid_hex w = Some (map ascii_lower w)"
proof -
  from assms have len: "length w = 32" and hex: "\<forall>c \<in> set w. is_hex_digit c"
    by (simp_all add: canonical_id_def is_hex_digit_def list_all_iff)
  from hex have u: "CHR ''u'' \<notin> set w"
    using hex_digit_is_plain(7) by blast
  have rm: "remove_all ''urn:'' w = w" "remove_all ''uuid:'' w = w"
    using u by (simp_all add: remove_all_absent)
  have st: "strip_chars ''{}'' w = w"
  proof -
    have "\<forall>c \<in> set w. \<not> c \<in> set ''{}''"
      using hex hex_digit_is_plain(8,9) by auto
    then have "dropWhile (\<lambda>c. c \<in> set ''{}'') w = w"
      "dropWhile (\<lambda>c. c \<in> set ''{}'') (rev w) = rev w"
      by (simp_all only: dropWhile_none set_rev)
    then show ?thesis by (simp only: strip_chars_def rev_rev_ident)
  qed
  have rh: "replace_hyphen w = w"
    unfolding replace_hyphen_def filter_id_conv
    using hex hex_digit_is_plain(2) by blast
  have dg: "int16_digits w = Some w"
  proof -
    from len obtain a b r where w: "w = a # b # r"
      by (cases w; cases "tl w") auto
    have sp: "\<forall>c \<in> set w. \<not> int_space c"
      using hex hex_digit_is_plain(1) by blast
    then have d: "dropWhile int_space w = w" "dropWhile int_space (rev w) = rev w"
      by (simp_all only: dropWhile_none set_rev)
    from hex w have "is_hex_digit a" "is_hex_digit b" by simp_all
    then have ab: "a \<noteq> CHR ''+''" "b \<noteq> CHR ''x''" "b \<noteq> CHR ''X''"
      by (simp_all only: hex_digit_is_plain not_False_eq_True)
    have ok: "digits_ok (a # b # r)" unfolding w [symmetric]
      using hex w by (intro digits_ok_hex) simp_all
    have und: "filter (\<lambda>c. c \<noteq> CHR ''_'') w = w"
      unfolding filter_id_conv using hex hex_digit_is_plain(3) by blast
    have "int16_digits w
            = (if digits_ok (a # b # r) then Some (filter (\<lambda>c. c \<noteq> CHR ''_'') (a # b # r)) else None)"
      unfolding int16_digits_def d rev_rev_ident
      using ab by (simp add: w del: digits_ok.simps)
    with ok und show ?thesis by (simp only: w if_True)
  qed
  show ?thesis
    unfolding python_uuid_hex_def rm
    by (simp add: st rh dg len)
qed


text \<open>
  C8, as amended. The lookup endpoint trims the identifier and deletes its hyphens before it
  is used as the lookup key. When the text so obtained is not empty, the key column
  prepares it: if it denotes no key the lookup raises \<open>ValueError\<close>; if it denotes a key
  (and primary keys are unique) the candidate set is the stored channels with that key, at
  most one, and the answer is the not-found response or the summary of that one channel.
  A canonical identifier of 32 hexadecimal digits and the same identifier with hyphens
  inserted give the same text, hence the same answer: the summary of the channel stored
  under its key, when that channel is stored, its root is available and no keyword or
  language is given.
\<close>

theorem lookup_normalises_identifier:
  assumes "distinct (map channel_id (ChannelMetadata_objects db))"
  shows "(replace_hyphen (strip ident) \<noteq> ''''
            \<and> get_db_prep_value E (replace_hyphen (strip ident)) = Some k \<longrightarrow>
            candidate_channels E db (Some (replace_hyphen (strip ident)))
              = Inr (filter (\<lambda>c. channel_id c = k) (ChannelMetadata_objects db))
            \<and> length (filter (\<lambda>c. channel_id c = k) (ChannelMetadata_objects db)) \<le> 1
            \<and> (get_public_channel_lookup E db ''v1'' params ident
                  = Inr (HttpResponseNotFound
                           (JObject [(''id'', NOT_FOUND E), (''metadata'', JObject [(''view'', JString '''')])]))
                \<or> (\<exists>c \<in> set (ChannelMetadata_objects db).
                      channel_id c = k
                      \<and> get_public_channel_lookup E db ''v1'' params ident
                          = Inr (HttpResponse (JArray [PublicChannelSerializer E c])))))
       \<and> (replace_hyphen (strip ident) \<noteq> ''''
            \<and> get_db_prep_value E (replace_hyphen (strip ident)) = None \<longrightarrow>
            get_public_channel_lookup E db ''v1'' params ident = Inl ValueError)
       \<and> (canonical_id w \<and> hyphens_inserted w h \<longrightarrow>
            replace_hyphen (strip h) = w \<and> replace_hyphen (strip w) = w
            \<and> get_public_channel_lookup E db version params h
                = get_public_channel_lookup E db version params w)
       \<and> (canonical_id w \<and> hyphens_inserted w h
            \<and> get_db_prep_value E w = Some (channel_id x) \<and> x \<in> set (ChannelMetadata_objects db)
            \<and> params ''keyword'' = None \<and> params ''language'' = None
            \<and> channel_root db x = Some r \<and> node_available r \<longrightarrow>
            get_public_channel_lookup E db ''v1'' params h
              = Inr (HttpResponse (JArray [PublicChannelSerializer E x]))
            \<and> get_public_channel_lookup E db ''v1'' params w
              = Inr (HttpResponse (JArray [PublicChannelSerializer E x])))"
proof -
  let ?i = "replace_hyphen (strip ident)"
  let ?all = "ChannelMetadata_objects db"
  let ?nf = "Inr (HttpResponseNotFound
                    (JObject [(''id'', NOT_FOUND E), (''metadata'', JObject [(''view'', JString '''')])]))"
  have first: "candidate_channels E db (Some ?i) = Inr (filter (\<lambda>c. channel_id c = k) ?all)
      \<and> length (filter (\<lambda>c. channel_id c = k) ?all) \<le> 1
      \<and> (get_public_channel_lookup E db ''v1'' params ident = ?nf
          \<or> (\<exists>c \<in> set ?all. channel_id c = k
                \<and> get_public_channel_lookup E db ''v1'' params ident
                    = Inr (HttpResponse (JArray [PublicChannelSerializer E c]))))"
    if ne: "?i \<noteq> ''''" and key: "get_db_prep_value E ?i = Some k"
  proof -
    let ?cand = "filter (\<lambda>c. channel_id c = k) ?all"
    let ?res = "filter_channels db params ?cand"
    from ne key have cand: "candidate_channels E db (Some ?i) = Inr ?cand"
      by (simp add: candidate_channels_def truthy_def)
    then have res: "get_channel_list_v1 E db params (Some ?i) = Inr ?res"
      by (simp add: get_channel_list_v1_def)
    have len: "length ?cand \<le> 1"
      using assms by (rule length_filter_pk)
    with length_filter_channels [of db params ?cand] have "length ?res \<le> 1"
      by simp
    then consider "?res = []" | c where "?res = [c]"
      by (cases ?res) (auto simp: length_Suc_conv)
    then have "get_public_channel_lookup E db ''v1'' params ident = ?nf
          \<or> (\<exists>c \<in> set ?all. channel_id c = k
                \<and> get_public_channel_lookup E db ''v1'' params ident
                    = Inr (HttpResponse (JArray [PublicChannelSerializer E c])))"
    proof cases
      case 1
      with res show ?thesis
        by (simp add: get_public_channel_lookup_def get_channel_list_def not_found_body_def)
    next
      case 2
      then have "c \<in> set ?res" by simp
      then have "c \<in> set ?cand" by (simp add: in_filter_channels)
      then have "c \<in> set ?all" "channel_id c = k" by simp_all
      moreover from 2 res have "get_public_channel_lookup E db ''v1'' params ident
                    = Inr (HttpResponse (JArray [PublicChannelSerializer E c]))"
        by (simp add: get_public_channel_lookup_def get_channel_list_def serialize_many_def)
      ultimately show ?thesis by blast
    qed
    with cand len show ?thesis by simp
  qed
  have second: "get_public_channel_lookup E db ''v1'' params ident = Inl ValueError"
    if "?i \<noteq> ''''" "get_db_prep_value E ?i = None"
    using that
    by (simp add: get_public_channel_lookup_def get_channel_list_def get_channel_list_v1_def
        candidate_channels_def truthy_def)
  have third: "replace_hyphen (strip h) = w \<and> replace_hyphen (strip w) = w
            \<and> get_public_channel_lookup E db v params h
                = get_public_channel_lookup E db v params w"
    if "canonical_id w" "hyphens_inserted w h" for v
    using normalise_hyphenated [OF that] by (simp add: get_public_channel_lookup_def)
  have fourth: "get_public_channel_lookup E db ''v1'' params h
              = Inr (HttpResponse (JArray [PublicChannelSerializer E x]))
            \<and> get_public_channel_lookup E db ''v1'' params w
              = Inr (HttpResponse (JArray [PublicChannelSerializer E x]))"
    if c: "canonical_id w" "hyphens_inserted w h"
      and key: "get_db_prep_value E w = Some (channel_id x)" and x: "x \<in> set ?all"
      and p: "params ''keyword'' = None" "params ''language'' = None"
      and root: "channel_root db x = Some r" "node_available r"
  proof -
    from c have "length w = 32" by (simp add: canonical_id_def)
    then have ne: "w \<noteq> ''''" by auto
    from filter_pk_single [OF assms x]
    have "candidate_channels E db (Some w) = Inr [x]"
      using ne key by (simp add: candidate_channels_def truthy_def)
    then have "get_channel_list_v1 E db params (Some w) = Inr [x]"
      using filter_channels_unfiltered_single [OF p root]
      by (simp add: get_channel_list_v1_def)
    then have "get_public_channel_lookup E db ''v1'' params w
              = Inr (HttpResponse (JArray [PublicChannelSerializer E x]))"
      using normalise_hyphenated(2) [OF c]
      by (simp add: get_public_channel_lookup_def get_channel_list_def serialize_many_def)
    with third [OF c, of "''v1''"] show ?thesis by simp
  qed
  from first second third fourth show ?thesis by blast
qed

theorem lookup_normalises_identifier_witness:
  "get_public_channel_lookup example_externals example_store ''v1'' Map.empty
        '' 01234567-89ab-cdef-0123-456789abcdef ''
       = Inr (HttpResponse (JArray [PublicChannelSerializer example_externals channel_X]))
   \<and> get_public_channel_lookup example_externals example_store ''v1'' Map.empty
        ''01234567-89ab-cdef-0123-456789abcdef''
       = Inr (HttpResponse (JArray [PublicChannelSerializer example_externals channel_X]))
   \<and> get_public_channel_lookup example_externals example_store ''v1'' Map.empty
        ''0123456789abcdef0123456789abcdef''
       = Inr (HttpResponse (JArray [PublicChannelSerializer example_externals channel_X]))
   \<and> get_public_channel_lookup example_externals example_store ''v1'' Map.empty ''zebra''
       = Inl ValueError"
proof -
  let ?w = "''0123456789abcdef0123456789abcdef''"
  let ?h = "''01234567-89ab-cdef-0123-456789abcdef''"
  let ?n1 = "\<lparr>node_id = ''n1'', node_tree_id = 1, node_lang_id = Some ''en'', node_available = True\<rparr>"
  have pk: "distinct (map channel_id (ChannelMetadata_objects example_store))"
    by code_simp
  note t = lookup_normalises_identifier [OF pk, where E = example_externals and params = Map.empty]
  have c: "canonical_id ?w" by code_simp
  have h: "hyphens_inserted ?w ?h" by code_simp
  have "get_db_prep_value example_externals ?w = python_uuid_hex ?w"
    by (simp add: example_externals_def)
  also have "\<dots> = Some (map ascii_lower ?w)" using c by (rule python_uuid_hex_canonical)
  also have "map ascii_lower ?w = channel_id channel_X" by code_simp
  finally have key: "get_db_prep_value example_externals ?w = Some (channel_id channel_X)" .
  have x: "channel_X \<in> set (ChannelMetadata_objects example_store)"
    by (simp add: example_store_def)
  have root: "channel_root example_store channel_X = Some ?n1" "node_available ?n1"
    by (code_simp, simp)
  have e: "(Map.empty :: string \<rightharpoonup> string) ''keyword'' = None"
      "(Map.empty :: string \<rightharpoonup> string) ''language'' = None"
    by simp_all
  have both: "get_public_channel_lookup example_externals example_store ''v1'' Map.empty ?h
       = Inr (HttpResponse (JArray [PublicChannelSerializer example_externals channel_X]))
   \<and> get_public_channel_lookup example_externals example_store ''v1'' Map.empty ?w
       = Inr (HttpResponse (JArray [PublicChannelSerializer example_externals channel_X]))"
    using t [where w = ?w and h = ?h and x = channel_X and r = ?n1,
             THEN conjunct2, THEN conjunct2, THEN conjunct2] c h key x root e
    by blast
  have n1: "replace_hyphen (strip '' 01234567-89ab-cdef-0123-456789abcdef '') = ?w"
    by code_simp
  have padded: "get_public_channel_lookup example_externals example_store ''v1'' Map.empty
        '' 01234567-89ab-cdef-0123-456789abcdef ''
       = get_public_channel_lookup example_externals example_store ''v1'' Map.empty ?w"
    using n1 normalise_hyphenated(2) [OF c h] by (simp add: get_public_channel_lookup_def)
  have z: "replace_hyphen (strip ''zebra'') \<noteq> ''''"
      "get_db_prep_value example_externals (replace_hyphen (strip ''zebra'')) = None"
    by code_simp+
  have bad: "get_public_channel_lookup example_externals example_store ''v1'' Map.empty ''zebra''
       = Inl ValueError"
    using t [where ident = "''zebra''", THEN conjunct2, THEN conjunct1] z by blast
  from both padded bad show ?thesis by simp
qed

text \<open>
  The identifier "-" gives the empty text: the candidate set is then all three channels of
  the example store, and the lookup answers with two summaries.
\<close>

theorem lookup_hyphen_only_counterexample:
  "replace_hyphen (strip ''-'') = ''''
   \<and> candidate_channels example_externals example_store (Some (replace_hyphen (strip ''-'')))
       = Inr [channel_X, channel_Y, channel_Z]
   \<and> get_public_channel_lookup example_externals example_store ''v1'' Map.empty ''-''
       = Inr (HttpResponse (JArray [PublicChannelSerializer example_externals channel_X,
                                    PublicChannelSerializer example_externals channel_Z]))"
  by code_simp

text \<open>
  C10, as amended. If the identifier given to the lookup endpoint consists, once its
  surrounding white space is trimmed, of hyphens only, so that normalization gives the empty
  text, the candidate set is all channels: the lookup selects what the listing with the
  same keyword and language selects, and answers as the listing does when that is at least
  one channel, with the not-found response when it is none.
\<close>

theorem lookup_with_empty_normalised_identifier:
  assumes "\<forall>c \<in> set (strip ident). c = CHR ''-''"
  shows "replace_hyphen (strip ident) = ''''
       \<and> candidate_channels E db (Some (replace_hyphen (strip ident)))
           = Inr (ChannelMetadata_objects db)
       \<and> get_channel_list_v1 E db params (Some (replace_hyphen (strip ident)))
           = get_channel_list_v1 E db params None
       \<and> get_channel_list_v1 E db params None
           = Inr (filter_channels db params (ChannelMetadata_objects db))
       \<and> get_public_channel_lookup E db ''v1'' params ident
           = (if filter_channels db params (ChannelMetadata_objects db) = []
              then Inr (HttpResponseNotFound
                          (JObject [(''id'', NOT_FOUND E), (''metadata'', JObject [(''view'', JString '''')])]))
              else get_public_channel_list E db ''v1'' params)"
proof -
  from assms have k: "replace_hyphen (strip ident) = ''''"
    by (auto simp: replace_hyphen_def filter_empty_conv)
  have c: "candidate_channels E db (Some '''') = Inr (ChannelMetadata_objects db)"
    by (simp add: candidate_channels_def truthy_def)
  then have l: "get_channel_list_v1 E db params (Some '''')
                  = Inr (filter_channels db params (ChannelMetadata_objects db))"
    by (simp add: get_channel_list_v1_def)
  from k c l show ?thesis
    by (simp add: get_channel_list_v1_None get_public_channel_lookup_def
        get_public_channel_list_def get_channel_list_def not_found_body_def)
qed

theorem lookup_with_empty_normalised_identifier_witness:
  "get_public_channel_lookup example_externals example_store ''v1'' Map.empty '' -- ''
     = get_public_channel_list example_externals example_store ''v1'' Map.empty
   \<and> get_public_channel_lookup example_externals example_store ''v1'' Map.empty '' -- ''
     = Inr (HttpResponse (JArray [PublicChannelSerializer example_externals channel_X,
                                  PublicChannelSerializer example_externals channel_Z]))"
proof -
  have h: "\<forall>c \<in> set (strip '' -- ''). c = CHR ''-''"
    by code_simp
  have a: "filter_channels example_store Map.empty (ChannelMetadata_objects example_store)
             = [channel_X, channel_Z]"
    by code_simp
  have l: "get_public_channel_list example_externals example_store ''v1'' Map.empty
     = Inr (HttpResponse (JArray [PublicChannelSerializer example_externals channel_X,
                                  PublicChannelSerializer example_externals channel_Z]))"
    by (simp add: get_public_channel_list_v1 a)
  from lookup_with_empty_normalised_identifier [OF h, of example_externals example_store Map.empty]
       a l
  show ?thesis by simp
qed

text \<open>
  The identifier "--" consists of hyphens only and gives the empty text. With a keyword
  that no channel matches, the lookup answers with the not-found response where the
  listing answers with a success response holding the empty array.
\<close>

theorem lookup_empty_key_nothing_selected_counterexample:
  "only_space_or_hyphen ''--''
   \<and> replace_hyphen (strip ''--'') = ''''
   \<and> candidate_channels example_externals example_store (Some (replace_hyphen (strip ''--'')))
       = Inr [channel_X, channel_Y, channel_Z]
   \<and> get_public_channel_lookup example_externals example_store ''v1'' [''keyword'' \<mapsto> ''zebra''] ''--''
       = Inr (HttpResponseNotFound
                (JObject [(''id'', JString ''NOT_FOUND''), (''metadata'', JObject [(''view'', JString '''')])]))
   \<and> get_public_channel_list example_externals example_store ''v1'' [''keyword'' \<mapsto> ''zebra'']
       = Inr (HttpResponse (JArray []))"
  by code_simp

end
